theory Spec2Isabelle
  imports Main
begin

section \<open>Data model of the demo server (test-application.go)\<close>

text \<open>
  Time is a single clock counted in nanoseconds. A \<open>time.Duration\<close> is a number of
  nanoseconds; the subtraction of two instants saturates at the ends of the 64-bit range,
  as \<open>time.Time.Sub\<close> does.
\<close>

type_synonym Duration = int

definition Millisecond :: Duration where
  "Millisecond = 1000000"

definition Second :: Duration where
  "Second = 1000000000"

definition maxDuration :: Duration where
  "maxDuration = 9223372036854775807"

definition minDuration :: Duration where
  "minDuration = - 9223372036854775808"

text \<open>The error a finished context reports through \<open>ctx.Err()\<close>.\<close>

datatype ctx_error = Canceled | DeadlineExceeded

text \<open>
  A request context: \<open>done_at\<close> is the instant at which its \<open>Done()\<close> channel is closed
  (\<open>None\<close>: it stays open for as long as the handler runs), \<open>ctx_err\<close> is what \<open>Err()\<close>
  returns from then on.
\<close>

record Context =
  done_at :: "int option"
  ctx_err :: ctx_error

record User =
  ID :: int
  Name :: string

text \<open>
  Values stored behind \<open>interface{}\<close>. The strings produced by the formatting routines of
  package \<open>time\<close> are kept as tagged leaves that carry the formatted quantity:
  \<open>VDurationString d\<close> is \<open>d.String()\<close> and \<open>VTimeRFC3339 t\<close> is
  \<open>t.Format(time.RFC3339)\<close>.
\<close>

datatype gval =
    VNil
  | VString string
  | VInt int
  | VUsers "User list"
  | VStrings "string list"
  | VMap "string \<Rightarrow> gval option"
  | VDuration Duration
  | VDurationString Duration
  | VTimeRFC3339 int
  | VError ctx_error

record Response =
  Status :: string
  Message :: string
  Data :: gval

text \<open>Looking a key up in a payload that is a map.\<close>

definition field :: "gval \<Rightarrow> string \<Rightarrow> gval option" where
  "field v k = (case v of VMap m \<Rightarrow> m k | _ \<Rightarrow> None)"

type_synonym Header = "string \<Rightarrow> string list option"

text \<open>\<open>Header.Get\<close>: the first value stored under the key, the empty string if there is none.\<close>

definition Header_Get :: "Header \<Rightarrow> string \<Rightarrow> string" where
  "Header_Get h k = (case h k of None \<Rightarrow> [] | Some [] \<Rightarrow> [] | Some (v # vs) \<Rightarrow> v)"

definition Header_Set :: "string \<Rightarrow> string \<Rightarrow> Header \<Rightarrow> Header" where
  "Header_Set k v h = h(k \<mapsto> [v])"

record Request =
  Method :: string
  Path :: string
  Header :: Header
  RemoteAddr :: string
  ctx :: Context

text \<open>
  What a handler has done to its \<open>http.ResponseWriter\<close>: the header map it may still edit,
  the status code once the header has been written (\<open>None\<close> before), the header map as it
  was at that moment, and the pieces written to the body.
\<close>

datatype body_part = JSONLine Response | TextLine string

record ResponseWriter =
  wheader :: Header
  status :: "nat option"
  sent_header :: Header
  body :: "body_part list"

definition newResponseWriter :: ResponseWriter where
  "newResponseWriter =
     \<lparr>wheader = Map.empty, status = None, sent_header = Map.empty, body = []\<rparr>"

definition WriteHeader :: "nat \<Rightarrow> ResponseWriter \<Rightarrow> ResponseWriter" where
  "WriteHeader code rw =
     (case status rw of
        Some c \<Rightarrow> rw
      | None \<Rightarrow> rw\<lparr>status := Some code, sent_header := wheader rw\<rparr>)"

text \<open>A write before any \<open>WriteHeader\<close> sends the header with status 200 first.\<close>

definition Write :: "body_part \<Rightarrow> ResponseWriter \<Rightarrow> ResponseWriter" where
  "Write p rw =
     (let rw1 = (case status rw of None \<Rightarrow> WriteHeader 200 rw | Some c \<Rightarrow> rw)
      in rw1\<lparr>body := body rw1 @ [p]\<rparr>)"

text \<open>
  \<open>json.NewEncoder(w).Encode(v)\<close>: one JSON document and a newline. The values the
  handlers encode are all encodable and the write goes to the writer's buffer, so the error
  result is \<open>None\<close>.
\<close>

definition json_Encode :: "Response \<Rightarrow> ResponseWriter \<Rightarrow> ResponseWriter \<times> string option" where
  "json_Encode v rw = (Write (JSONLine v) rw, None)"

text \<open>
  \<open>http.Error\<close> of package net/http: it sets the headers Content-Type to
  "text/plain; charset=utf-8" and X-Content-Type-Options to "nosniff", writes the header
  with the given code and prints the message and a newline. (Recent versions delete the
  header Content-Length first, which no handler here sets.)
  \<open>http.NotFound\<close> is \<open>http.Error\<close> with the text "404 page not found" and code 404.
\<close>

definition http_Error :: "ResponseWriter \<Rightarrow> string \<Rightarrow> nat \<Rightarrow> ResponseWriter" where
  "http_Error rw msg code =
     (let rw1 = rw\<lparr>wheader := Header_Set ''Content-Type'' ''text/plain; charset=utf-8'' (wheader rw)\<rparr>;
          rw2 = rw1\<lparr>wheader := Header_Set ''X-Content-Type-Options'' ''nosniff'' (wheader rw1)\<rparr>;
          rw3 = WriteHeader code rw2
      in Write (TextLine msg) rw3)"

definition http_NotFound :: "ResponseWriter \<Rightarrow> ResponseWriter" where
  "http_NotFound rw = http_Error rw ''404 page not found'' 404"

section \<open>The process state\<close>

text \<open>
  The state shared by everything the process does: the clock, the global \<open>startTime\<close>,
  the generator behind \<open>math/rand\<close> (the stream of numbers each seed gives, the stream
  in use and the count of numbers already drawn from it), the choices \<open>select\<close> makes
  when two of its cases are ready at once with the count of those already made, and the log
  as the list of \<open>log.Printf\<close> calls (format and arguments).
\<close>

record world =
  now :: int
  startTime :: int
  seeded :: "int \<Rightarrow> nat \<Rightarrow> nat"
  rng :: "nat \<Rightarrow> nat"
  rpos :: nat
  sel :: "nat \<Rightarrow> bool"
  spos :: nat
  logs :: "(string \<times> gval list) list"

definition log_Printf :: "string \<Rightarrow> gval list \<Rightarrow> world \<Rightarrow> world" where
  "log_Printf fmt args w = w\<lparr>logs := logs w @ [(fmt, args)]\<rparr>"

text \<open>\<open>rand.Seed(seed)\<close>: the stream of that seed, from its beginning.\<close>

definition rand_Seed :: "int \<Rightarrow> world \<Rightarrow> world" where
  "rand_Seed seed w = w\<lparr>rng := seeded w seed, rpos := 0\<rparr>"

text \<open>\<open>rand.Intn(n)\<close> for a positive \<open>n\<close>: the next number of the stream, reduced below \<open>n\<close>.\<close>

definition rand_Intn :: "nat \<Rightarrow> world \<Rightarrow> nat \<times> world" where
  "rand_Intn n w = (rng w (rpos w) mod n, w\<lparr>rpos := Suc (rpos w)\<rparr>)"

definition time_Sleep :: "Duration \<Rightarrow> world \<Rightarrow> world" where
  "time_Sleep d w = (if d \<le> 0 then w else w\<lparr>now := now w + d\<rparr>)"

definition time_Sub :: "int \<Rightarrow> int \<Rightarrow> Duration" where
  "time_Sub t u =
     (let d = t - u
      in if maxDuration < d then maxDuration else if d < minDuration then minDuration else d)"

definition time_Since :: "int \<Rightarrow> world \<Rightarrow> Duration" where
  "time_Since t w = time_Sub (now w) t"

text \<open>
  The statement both simulated calls end with:
  \<^verbatim>\<open>select { case <-time.After(latency): ... case <-ctx.Done(): ... }\<close>
  The timer's channel is ready from the instant \<open>now + latency\<close> on (at once when the
  latency is not positive), the context's channel from the instant the context is finished
  on. The statement returns at the first instant, not before now, at which one of them is
  ready; when both are ready at that instant \<open>select\<close> picks one of them.
\<close>

datatype select_case = TimerFired | CtxDone

definition select_After_Done :: "Context \<Rightarrow> Duration \<Rightarrow> world \<Rightarrow> select_case \<times> world" where
  "select_After_Done c latency w =
     (let fire = max (now w) (now w + latency)
      in case done_at c of
           None \<Rightarrow> (TimerFired, w\<lparr>now := fire\<rparr>)
         | Some t \<Rightarrow>
             (let closed = max (now w) t
              in if closed < fire then (CtxDone, w\<lparr>now := closed\<rparr>)
                 else if fire < closed then (TimerFired, w\<lparr>now := fire\<rparr>)
                 else (if sel w (spos w) then TimerFired else CtxDone,
                       w\<lparr>now := fire, spos := Suc (spos w)\<rparr>)))"

section \<open>The simulated calls\<close>

text \<open>Line 29: \<^verbatim>\<open>time.Duration(rand.Intn(90)+10) * time.Millisecond\<close>, from the number drawn.\<close>

definition db_latency :: "nat \<Rightarrow> Duration" where
  "db_latency k = int (k + 10) * Millisecond"

definition simulateDatabase :: "Context \<Rightarrow> string \<Rightarrow> world \<Rightarrow> ctx_error option \<times> world" where
  "simulateDatabase c operation w =
     (let (k, w1) = rand_Intn 90 w;
          latency = db_latency k;
          w2 = log_Printf ''Database operation: %s (latency: %v)''
                 [VString operation, VDuration latency] w1
      in case select_After_Done c latency w2 of
           (TimerFired, w3) \<Rightarrow> (None, w3)
         | (CtxDone, w3) \<Rightarrow> (Some (ctx_err c), w3))"

text \<open>Line 45: \<^verbatim>\<open>time.Duration(rand.Intn(200)+50) * time.Millisecond\<close>.\<close>

definition api_latency :: "nat \<Rightarrow> Duration" where
  "api_latency k = int (k + 50) * Millisecond"

definition simulateExternalAPI ::
  "Context \<Rightarrow> string \<Rightarrow> world \<Rightarrow> (gval \<times> ctx_error option) \<times> world" where
  "simulateExternalAPI c endpoint w =
     (let w1 = log_Printf ''Calling external API: %s'' [VString endpoint] w;
          (k, w2) = rand_Intn 200 w1;
          latency = api_latency k
      in case select_After_Done c latency w2 of
           (TimerFired, w3) \<Rightarrow>
             ((VMap [''external_data'' \<mapsto> VString (''Data from '' @ endpoint),
                     ''timestamp'' \<mapsto> VInt (now w3 div Second)], None), w3)
         | (CtxDone, w3) \<Rightarrow> ((VNil, Some (ctx_err c)), w3))"

section \<open>The handlers\<close>

definition good_users :: "User list" where
  "good_users =
     [\<lparr>ID = 1, Name = ''Alice Johnson''\<rparr>,
      \<lparr>ID = 2, Name = ''Bob Smith''\<rparr>,
      \<lparr>ID = 3, Name = ''Charlie Brown''\<rparr>]"

definition goodHandler :: "ResponseWriter \<Rightarrow> Request \<Rightarrow> world \<Rightarrow> ResponseWriter \<times> world" where
  "goodHandler rw r w =
     (let c = ctx r;
          w1 = log_Printf ''Processing good request from %s'' [VString (RemoteAddr r)] w
      in case simulateDatabase c ''SELECT users WHERE active=true'' w1 of
           (Some err, w2) \<Rightarrow>
             (let w3 = log_Printf ''Database error: %v'' [VError err] w2
              in (http_Error rw ''Database unavailable'' 503, w3))
         | (None, w2) \<Rightarrow>
             (case simulateExternalAPI c ''https://api.example.com/status'' w2 of
                ((externalData, err), w3) \<Rightarrow>
                  (let w4 = (case err of
                               Some e \<Rightarrow> log_Printf ''External API error: %v'' [VError e] w3
                             | None \<Rightarrow> w3);
                       users = good_users;
                       response =
                         \<lparr>Status = ''success'',
                          Message = ''Request processed successfully'',
                          Data = VMap [''users'' \<mapsto> VUsers users,
                                       ''external_data'' \<mapsto> externalData,
                                       ''processed_at'' \<mapsto> VTimeRFC3339 (now w4)]\<rparr>;
                       rw1 = rw\<lparr>wheader := Header_Set ''Content-Type'' ''application/json'' (wheader rw)\<rparr>;
                       rw2 = WriteHeader 200 rw1;
                       (rw3, werr) = json_Encode response rw2;
                       w5 = (case werr of
                               Some e \<Rightarrow> log_Printf ''Error encoding response: %v'' [VString e] w4
                             | None \<Rightarrow> w4);
                       w6 = log_Printf ''Successfully processed good request'' [] w5
                   in (rw3, w6))))"

text \<open>
  The loop of \<open>badHandler\<close> over its three operation names: a log line and an
  unconditional \<open>time.Sleep\<close> of 5 ms plus \<open>rand.Intn(20)\<close> ms for each.
\<close>

fun bad_operations :: "string list \<Rightarrow> world \<Rightarrow> world" where
  "bad_operations [] w = w"
| "bad_operations (op # ops) w =
     (let w1 = log_Printf ''Operation failed: %s'' [VString op] w;
          (k, w2) = rand_Intn 20 w1;
          w3 = time_Sleep (int (k + 5) * Millisecond) w2
      in bad_operations ops w3)"

definition badHandler :: "ResponseWriter \<Rightarrow> Request \<Rightarrow> world \<Rightarrow> ResponseWriter \<times> world" where
  "badHandler rw r w =
     (let c = ctx r;
          w1 = log_Printf ''Processing bad request from %s'' [VString (RemoteAddr r)] w;
          (err, w2) = simulateDatabase c ''SELECT * FROM non_existent_table'' w1;
          w3 = (case err of
                  Some e \<Rightarrow> log_Printf ''Expected database error: %v'' [VError e] w2
                | None \<Rightarrow> w2);
          operations = [''validate_user_permissions'', ''check_rate_limits'', ''process_payment''];
          w4 = bad_operations operations w3;
          ((discarded, err2), w5) = simulateExternalAPI c ''https://api.example.com/broken-endpoint'' w4;
          w6 = (case err2 of
                  Some e \<Rightarrow> log_Printf ''External API call failed as expected: %v'' [VError e] w5
                | None \<Rightarrow> w5);
          response =
            \<lparr>Status = ''error'',
             Message = ''Internal server error occurred'',
             Data = VMap [''error_code'' \<mapsto> VString ''INTERNAL_ERROR'',
                          ''timestamp'' \<mapsto> VTimeRFC3339 (now w6)]\<rparr>;
          rw1 = rw\<lparr>wheader := Header_Set ''Content-Type'' ''application/json'' (wheader rw)\<rparr>;
          rw2 = WriteHeader 500 rw1;
          (rw3, werr) = json_Encode response rw2;
          w7 = (case werr of
                  Some e \<Rightarrow> log_Printf ''Error encoding error response: %v'' [VString e] w6
                | None \<Rightarrow> w6);
          w8 = log_Printf ''Processed bad request with error response'' [] w7
      in (rw3, w8))"

text \<open>The loop of \<open>adminHandler\<close>: 5 ms plus \<open>rand.Intn(15)\<close> ms for each name.\<close>

fun admin_operations :: "string list \<Rightarrow> world \<Rightarrow> world" where
  "admin_operations [] w = w"
| "admin_operations (op # ops) w =
     (let w1 = log_Printf ''Auth operation: %s'' [VString op] w;
          (k, w2) = rand_Intn 15 w1;
          w3 = time_Sleep (int (k + 5) * Millisecond) w2
      in admin_operations ops w3)"

definition adminHandler :: "ResponseWriter \<Rightarrow> Request \<Rightarrow> world \<Rightarrow> ResponseWriter \<times> world" where
  "adminHandler rw r w =
     (let c = ctx r;
          w1 = log_Printf ''Admin access attempted from %s'' [VString (RemoteAddr r)] w;
          authToken = Header_Get (Header r) ''Authorization'';
          w2 = log_Printf ''Checking authorization token: %s'' [VString authToken] w1;
          (err, w3) = simulateDatabase c ''SELECT permissions FROM users WHERE token=?'' w2;
          w4 = (case err of
                  Some e \<Rightarrow> log_Printf ''Auth database error: %v'' [VError e] w3
                | None \<Rightarrow> w3);
          operations = [''validate_token_format'', ''check_token_expiry'', ''verify_admin_permissions''];
          w5 = admin_operations operations w4;
          w6 = log_Printf ''Authorization failed - insufficient permissions'' [] w5;
          response =
            \<lparr>Status = ''error'',
             Message = ''Unauthorized access - admin privileges required'',
             Data = VMap [''error_code'' \<mapsto> VString ''UNAUTHORIZED'',
                          ''required_role'' \<mapsto> VString ''admin'',
                          ''timestamp'' \<mapsto> VTimeRFC3339 (now w6)]\<rparr>;
          rw1 = rw\<lparr>wheader := Header_Set ''Content-Type'' ''application/json'' (wheader rw)\<rparr>;
          rw2 = WriteHeader 401 rw1;
          (rw3, werr) = json_Encode response rw2;
          w7 = (case werr of
                  Some e \<Rightarrow> log_Printf ''Error encoding unauthorized response: %v'' [VString e] w6
                | None \<Rightarrow> w6);
          w8 = log_Printf ''Rejected admin request - unauthorized'' [] w7
      in (rw3, w8))"

definition healthHandler :: "ResponseWriter \<Rightarrow> Request \<Rightarrow> world \<Rightarrow> ResponseWriter \<times> world" where
  "healthHandler rw r w =
     (let w1 = log_Printf ''Health check from %s'' [VString (RemoteAddr r)] w;
          response =
            \<lparr>Status = ''healthy'',
             Message = ''Service is running'',
             Data = VMap [''uptime'' \<mapsto> VDurationString (time_Since (startTime w1) w1),
                          ''timestamp'' \<mapsto> VTimeRFC3339 (now w1)]\<rparr>;
          rw1 = rw\<lparr>wheader := Header_Set ''Content-Type'' ''application/json'' (wheader rw)\<rparr>;
          rw2 = WriteHeader 200 rw1;
          (rw3, werr) = json_Encode response rw2
      in (rw3, w1))"

text \<open>The function literal registered for the pattern "/".\<close>

definition rootHandler :: "ResponseWriter \<Rightarrow> Request \<Rightarrow> world \<Rightarrow> ResponseWriter \<times> world" where
  "rootHandler rw r w =
     (if Path r \<noteq> ''/'' then (http_NotFound rw, w)
      else
        (let response =
               \<lparr>Status = ''success'',
                Message = ''OpenTelemetry Demo Server'',
                Data = VMap [''endpoints'' \<mapsto> VStrings [''/good'', ''/bad'', ''/admin'', ''/health''],
                             ''version'' \<mapsto> VString ''1.0.0'']\<rparr>;
             rw1 = rw\<lparr>wheader := Header_Set ''Content-Type'' ''application/json'' (wheader rw)\<rparr>;
             (rw2, werr) = json_Encode response rw1
         in (rw2, w)))"

section \<open>The process: \<open>main\<close> and the requests it serves\<close>

text \<open>
  The five registrations of \<open>main\<close>. Which of them the \<open>ServeMux\<close> selects for a
  request is given with the request; each handler gets a fresh response writer.
\<close>

datatype endpoint = Good | Bad | Admin | Health | Root

fun handler_of :: "endpoint \<Rightarrow> ResponseWriter \<Rightarrow> Request \<Rightarrow> world \<Rightarrow> ResponseWriter \<times> world" where
  "handler_of Good = goodHandler"
| "handler_of Bad = badHandler"
| "handler_of Admin = adminHandler"
| "handler_of Health = healthHandler"
| "handler_of Root = rootHandler"

text \<open>
  What happens after start-up: time passes (a number of nanoseconds), or a request is
  served by the handler registered for it. The run collects the responses in order.
\<close>

datatype event = Elapse nat | Serve endpoint Request

fun run :: "world \<Rightarrow> event list \<Rightarrow> (endpoint \<times> ResponseWriter) list" where
  "run w [] = []"
| "run w (Elapse d # es) = run (w\<lparr>now := now w + int d\<rparr>) es"
| "run w (Serve e r # es) =
     (case handler_of e newResponseWriter r w of
        (rw, w1) \<Rightarrow> (e, rw) # run w1 es)"

text \<open>
  \<open>main\<close> stores the current instant in \<open>startTime\<close>, seeds the generator with the
  same clock, announces the endpoints and serves. \<open>http.ListenAndServe\<close> returns only
  with an error, which ends the process through \<open>log.Fatalf\<close>; the list of events is
  what the process gets to do before that (none at all if the port cannot be bound).
\<close>

definition main :: "world \<Rightarrow> event list \<Rightarrow> (endpoint \<times> ResponseWriter) list" where
  "main w es =
     (let w1 = w\<lparr>startTime := now w\<rparr>;
          w2 = rand_Seed (now w1) w1;
          port = '':8080'';
          w3 = log_Printf ''Starting server on port %s'' [VString port] w2;
          w4 = log_Printf ''Available endpoints:'' [] w3;
          w5 = log_Printf ''  GET /        - Service info'' [] w4;
          w6 = log_Printf ''  GET /good    - Returns 200 with success response'' [] w5;
          w7 = log_Printf ''  GET /bad     - Returns 500 with error response'' [] w6;
          w8 = log_Printf ''  GET /admin   - Returns 401 unauthorized'' [] w7;
          w9 = log_Printf ''  GET /health  - Health check endpoint'' [] w8
      in run w9 es)"

text \<open>Reading a response: its JSON document, the content type sent, the uptime reported.\<close>

definition json_body :: "ResponseWriter \<Rightarrow> Response option" where
  "json_body rw = (case body rw of [JSONLine v] \<Rightarrow> Some v | _ \<Rightarrow> None)"

definition content_type :: "ResponseWriter \<Rightarrow> string list option" where
  "content_type rw = sent_header rw ''Content-Type''"

definition uptime_of :: "ResponseWriter \<Rightarrow> Duration option" where
  "uptime_of rw =
     (case json_body rw of
        Some v \<Rightarrow> (case field (Data v) ''uptime'' of Some (VDurationString d) \<Rightarrow> Some d | _ \<Rightarrow> None)
      | None \<Rightarrow> None)"

fun health_uptimes :: "(endpoint \<times> ResponseWriter) list \<Rightarrow> Duration list" where
  "health_uptimes [] = []"
| "health_uptimes ((e, rw) # xs) =
     (if e = Health
      then (case uptime_of rw of Some d \<Rightarrow> d # health_uptimes xs | None \<Rightarrow> health_uptimes xs)
      else health_uptimes xs)"

section \<open>Notions used in the statements below\<close>

text \<open>
  The result of the database wait of \<open>goodHandler\<close> (line 65), and the result of its
  external call (line 72).
\<close>

definition good_db_wait :: "Request \<Rightarrow> world \<Rightarrow> ctx_error option" where
  "good_db_wait r w =
     fst (simulateDatabase (ctx r) ''SELECT users WHERE active=true''
            (log_Printf ''Processing good request from %s'' [VString (RemoteAddr r)] w))"

definition good_api_call :: "Request \<Rightarrow> world \<Rightarrow> gval \<times> ctx_error option" where
  "good_api_call r w =
     fst (simulateExternalAPI (ctx r) ''https://api.example.com/status''
            (snd (simulateDatabase (ctx r) ''SELECT users WHERE active=true''
                    (log_Printf ''Processing good request from %s'' [VString (RemoteAddr r)] w))))"

text \<open>Two states that agree on everything but the log.\<close>

definition timing_eq :: "world \<Rightarrow> world \<Rightarrow> bool" where
  "timing_eq w v \<longleftrightarrow>
     now w = now v \<and> startTime w = startTime v \<and> seeded w = seeded v \<and> rng w = rng v \<and>
     rpos w = rpos v \<and> sel w = sel v \<and> spos w = spos v"

text \<open>
  A concrete state and concrete requests to evaluate the handlers on: the clock at 0, a
  generator that yields the given number every time, an empty log; a GET request for the
  given path whose context is finished at the given instant, or never.
\<close>

definition example_world :: "nat \<Rightarrow> world" where
  "example_world k =
     \<lparr>now = 0, startTime = 0, seeded = (\<lambda>s i. k), rng = (\<lambda>i. k), rpos = 0,
      sel = (\<lambda>i. True), spos = 0, logs = []\<rparr>"

definition example_request :: "string \<Rightarrow> int option \<Rightarrow> Request" where
  "example_request p d =
     \<lparr>Method = ''GET'', Path = p, Header = Map.empty, RemoteAddr = ''127.0.0.1:40000'',
      ctx = \<lparr>done_at = d, ctx_err = Canceled\<rparr>\<rparr>"

section \<open>Auxiliary facts\<close>

lemmas rw_defs = json_Encode_def Write_def WriteHeader_def newResponseWriter_def http_Error_def
  http_NotFound_def Header_Set_def json_body_def content_type_def field_def

lemma log_Printf_fields [simp]:
  "now (log_Printf f a w) = now w"
  "startTime (log_Printf f a w) = startTime w"
  "seeded (log_Printf f a w) = seeded w"
  "rng (log_Printf f a w) = rng w"
  "rpos (log_Printf f a w) = rpos w"
  "sel (log_Printf f a w) = sel w"
  "spos (log_Printf f a w) = spos w"
  "logs (log_Printf f a w) = logs w @ [(f, a)]"
  by (simp_all add: log_Printf_def)

lemma Millisecond_pos [simp]: "0 < Millisecond"
  by (simp add: Millisecond_def)

lemma db_latency_pos [simp]:
  "0 < db_latency k" "10 * Millisecond \<le> db_latency k" "0 \<le> db_latency k"
  by (simp_all add: db_latency_def Millisecond_def)

lemma api_latency_pos [simp]:
  "0 < api_latency k" "50 * Millisecond \<le> api_latency k" "0 \<le> api_latency k"
  by (simp_all add: api_latency_def Millisecond_def)

text \<open>The select statement: who wins and when.\<close>

lemma select_fst:
  "0 < l \<Longrightarrow>
   fst (select_After_Done c l w) =
     (case done_at c of
        None \<Rightarrow> TimerFired
      | Some t \<Rightarrow>
          if t < now w + l then CtxDone
          else if now w + l < t then TimerFired
          else if sel w (spos w) then TimerFired else CtxDone)"
  by (simp add: select_After_Done_def Let_def max_def split: option.splits)

lemma select_now:
  "0 < l \<Longrightarrow>
   now (snd (select_After_Done c l w)) =
     (case done_at c of
        None \<Rightarrow> now w + l
      | Some t \<Rightarrow> if t < now w + l then max (now w) t else now w + l)"
  by (simp add: select_After_Done_def Let_def max_def split: option.splits)

lemma select_fields [simp]:
  "startTime (snd (select_After_Done c l w)) = startTime w"
  "seeded (snd (select_After_Done c l w)) = seeded w"
  "rng (snd (select_After_Done c l w)) = rng w"
  "rpos (snd (select_After_Done c l w)) = rpos w"
  "sel (snd (select_After_Done c l w)) = sel w"
  "logs (snd (select_After_Done c l w)) = logs w"
  by (simp_all add: select_After_Done_def Let_def split: option.splits
      del: max_less_iff_conj less_max_iff_disj)

lemma select_logs:
  "select_After_Done c l (w\<lparr>logs := x\<rparr>) =
     (fst (select_After_Done c l w), (snd (select_After_Done c l w))\<lparr>logs := x\<rparr>)"
  by (simp add: select_After_Done_def Let_def split: option.split
      del: max_less_iff_conj less_max_iff_disj)

lemma timing_eq_logs: "timing_eq w v \<Longrightarrow> w = v\<lparr>logs := logs w\<rparr>"
  by (cases w, cases v) (simp add: timing_eq_def)

lemma select_timing_eq:
  assumes "timing_eq w v"
  shows "fst (select_After_Done c l w) = fst (select_After_Done c l v) \<and>
         timing_eq (snd (select_After_Done c l w)) (snd (select_After_Done c l v))"
proof -
  have "select_After_Done c l w = select_After_Done c l (v\<lparr>logs := logs w\<rparr>)"
    using timing_eq_logs [OF assms] by simp
  then show ?thesis
    by (simp add: select_logs timing_eq_def)
qed

lemma simulateDatabase_unfold:
  "simulateDatabase c operation w =
     (case fst (select_After_Done c (db_latency (rng w (rpos w) mod 90))
                  (log_Printf ''Database operation: %s (latency: %v)''
                     [VString operation, VDuration (db_latency (rng w (rpos w) mod 90))]
                     (w\<lparr>rpos := Suc (rpos w)\<rparr>))) of
        TimerFired \<Rightarrow> None
      | CtxDone \<Rightarrow> Some (ctx_err c),
      snd (select_After_Done c (db_latency (rng w (rpos w) mod 90))
             (log_Printf ''Database operation: %s (latency: %v)''
                [VString operation, VDuration (db_latency (rng w (rpos w) mod 90))]
                (w\<lparr>rpos := Suc (rpos w)\<rparr>))))"
  by (simp add: simulateDatabase_def rand_Intn_def Let_def split_beta split: select_case.split)

lemma simulateDatabase_fst:
  "fst (simulateDatabase c operation w) =
     (case done_at c of
        None \<Rightarrow> None
      | Some t \<Rightarrow>
          if t < now w + db_latency (rng w (rpos w) mod 90) then Some (ctx_err c)
          else if now w + db_latency (rng w (rpos w) mod 90) < t then None
          else if sel w (spos w) then None else Some (ctx_err c))"
  by (simp add: simulateDatabase_unfold select_fst split: option.split)

lemma simulateDatabase_now:
  "now (snd (simulateDatabase c operation w)) =
     (case done_at c of
        None \<Rightarrow> now w + db_latency (rng w (rpos w) mod 90)
      | Some t \<Rightarrow>
          if t < now w + db_latency (rng w (rpos w) mod 90) then max (now w) t
          else now w + db_latency (rng w (rpos w) mod 90))"
  by (simp add: simulateDatabase_unfold select_now split: option.split)

lemma simulateDatabase_fields [simp]:
  "startTime (snd (simulateDatabase c operation w)) = startTime w"
  "rng (snd (simulateDatabase c operation w)) = rng w"
  "rpos (snd (simulateDatabase c operation w)) = Suc (rpos w)"
  "sel (snd (simulateDatabase c operation w)) = sel w"
  by (simp_all add: simulateDatabase_unfold)

lemma simulateDatabase_now_mono: "now w \<le> now (snd (simulateDatabase c operation w))"
  by (simp add: simulateDatabase_now split: option.splits)

lemma timing_eq_log:
  "timing_eq w v \<Longrightarrow> timing_eq (log_Printf f a w) (log_Printf g b v)"
  by (simp add: timing_eq_def)

lemma timing_eq_rpos:
  "timing_eq w v \<Longrightarrow> timing_eq (w\<lparr>rpos := Suc (rpos w)\<rparr>) (v\<lparr>rpos := Suc (rpos v)\<rparr>)"
  by (simp add: timing_eq_def)

lemma simulateDatabase_timing_eq:
  assumes "timing_eq w v"
  shows "fst (simulateDatabase c operation w) = fst (simulateDatabase c operation v)"
    and "timing_eq (snd (simulateDatabase c operation w)) (snd (simulateDatabase c operation v))"
proof -
  have e: "rng w (rpos w) = rng v (rpos v)"
    using assms by (simp add: timing_eq_def)
  have t: "timing_eq
      (log_Printf ''Database operation: %s (latency: %v)''
         [VString operation, VDuration (db_latency (rng w (rpos w) mod 90))]
         (w\<lparr>rpos := Suc (rpos w)\<rparr>))
      (log_Printf ''Database operation: %s (latency: %v)''
         [VString operation, VDuration (db_latency (rng v (rpos v) mod 90))]
         (v\<lparr>rpos := Suc (rpos v)\<rparr>))"
    using assms by (intro timing_eq_log timing_eq_rpos)
  show "fst (simulateDatabase c operation w) = fst (simulateDatabase c operation v)"
    using select_timing_eq [OF t] e by (simp add: simulateDatabase_unfold)
  show "timing_eq (snd (simulateDatabase c operation w)) (snd (simulateDatabase c operation v))"
    using select_timing_eq [OF t] e by (simp add: simulateDatabase_unfold)
qed

lemma log_case_fields [simp]:
  "now (case e of None \<Rightarrow> w | Some x \<Rightarrow> log_Printf f (a x) w) = now w"
  "startTime (case e of None \<Rightarrow> w | Some x \<Rightarrow> log_Printf f (a x) w) = startTime w"
  "seeded (case e of None \<Rightarrow> w | Some x \<Rightarrow> log_Printf f (a x) w) = seeded w"
  "rng (case e of None \<Rightarrow> w | Some x \<Rightarrow> log_Printf f (a x) w) = rng w"
  "rpos (case e of None \<Rightarrow> w | Some x \<Rightarrow> log_Printf f (a x) w) = rpos w"
  "sel (case e of None \<Rightarrow> w | Some x \<Rightarrow> log_Printf f (a x) w) = sel w"
  "spos (case e of None \<Rightarrow> w | Some x \<Rightarrow> log_Printf f (a x) w) = spos w"
  by (simp_all split: option.split)

lemma simulateExternalAPI_unfold:
  "simulateExternalAPI c endpoint w =
     (case fst (select_After_Done c (api_latency (rng w (rpos w) mod 200))
                  ((log_Printf ''Calling external API: %s'' [VString endpoint] w)
                     \<lparr>rpos := Suc (rpos w)\<rparr>)) of
        TimerFired \<Rightarrow>
          (VMap [''external_data'' \<mapsto> VString (''Data from '' @ endpoint),
                 ''timestamp'' \<mapsto>
                   VInt (now (snd (select_After_Done c (api_latency (rng w (rpos w) mod 200))
                                     ((log_Printf ''Calling external API: %s'' [VString endpoint] w)
                                        \<lparr>rpos := Suc (rpos w)\<rparr>))) div Second)],
           None)
      | CtxDone \<Rightarrow> (VNil, Some (ctx_err c)),
      snd (select_After_Done c (api_latency (rng w (rpos w) mod 200))
             ((log_Printf ''Calling external API: %s'' [VString endpoint] w)
                \<lparr>rpos := Suc (rpos w)\<rparr>)))"
  by (simp add: simulateExternalAPI_def rand_Intn_def Let_def split_beta split: select_case.split)

lemma simulateExternalAPI_err:
  "snd (fst (simulateExternalAPI c endpoint w)) =
     (case done_at c of
        None \<Rightarrow> None
      | Some t \<Rightarrow>
          if t < now w + api_latency (rng w (rpos w) mod 200) then Some (ctx_err c)
          else if now w + api_latency (rng w (rpos w) mod 200) < t then None
          else if sel w (spos w) then None else Some (ctx_err c))"
  by (simp add: simulateExternalAPI_unfold select_fst split: option.split select_case.split)

lemma simulateExternalAPI_payload:
  "fst (fst (simulateExternalAPI c endpoint w)) =
     (case snd (fst (simulateExternalAPI c endpoint w)) of
        Some e \<Rightarrow> VNil
      | None \<Rightarrow>
          VMap [''external_data'' \<mapsto> VString (''Data from '' @ endpoint),
                ''timestamp'' \<mapsto> VInt (now (snd (simulateExternalAPI c endpoint w)) div Second)])"
  by (simp add: simulateExternalAPI_unfold split: select_case.split)

lemma simulateExternalAPI_now:
  "now (snd (simulateExternalAPI c endpoint w)) =
     (case done_at c of
        None \<Rightarrow> now w + api_latency (rng w (rpos w) mod 200)
      | Some t \<Rightarrow>
          if t < now w + api_latency (rng w (rpos w) mod 200) then max (now w) t
          else now w + api_latency (rng w (rpos w) mod 200))"
  by (simp add: simulateExternalAPI_unfold select_now split: option.split)

lemma simulateExternalAPI_fields [simp]:
  "startTime (snd (simulateExternalAPI c endpoint w)) = startTime w"
  "rng (snd (simulateExternalAPI c endpoint w)) = rng w"
  "rpos (snd (simulateExternalAPI c endpoint w)) = Suc (rpos w)"
  "sel (snd (simulateExternalAPI c endpoint w)) = sel w"
  by (simp_all add: simulateExternalAPI_unfold)

lemma simulateExternalAPI_now_mono: "now w \<le> now (snd (simulateExternalAPI c endpoint w))"
  by (simp add: simulateExternalAPI_now split: option.splits)

lemma simulateDatabase_logs:
  "logs (snd (simulateDatabase c operation w)) =
     logs w @ [(''Database operation: %s (latency: %v)'',
                [VString operation, VDuration (db_latency (rng w (rpos w) mod 90))])]"
  by (simp add: simulateDatabase_unfold)

lemma delay_pos [simp]: "\<not> int (k + 5) * Millisecond \<le> 0"
  by (simp add: Millisecond_def)

lemma bad_operations_step:
  "bad_operations (op # ops) w =
     bad_operations ops
       ((log_Printf ''Operation failed: %s'' [VString op] w)
          \<lparr>rpos := Suc (rpos w), now := now w + int (rng w (rpos w) mod 20 + 5) * Millisecond\<rparr>)"
  by (simp add: rand_Intn_def time_Sleep_def Let_def del: of_nat_add)

lemma admin_operations_step:
  "admin_operations (op # ops) w =
     admin_operations ops
       ((log_Printf ''Auth operation: %s'' [VString op] w)
          \<lparr>rpos := Suc (rpos w), now := now w + int (rng w (rpos w) mod 15 + 5) * Millisecond\<rparr>)"
  by (simp add: rand_Intn_def time_Sleep_def Let_def del: of_nat_add)

lemma bad_operations_fields [simp]:
  "startTime (bad_operations ops w) = startTime w"
  "rng (bad_operations ops w) = rng w"
  "sel (bad_operations ops w) = sel w"
  "spos (bad_operations ops w) = spos w"
  "rpos (bad_operations ops w) = rpos w + length ops"
  by (induction ops arbitrary: w;
      simp add: bad_operations_step del: bad_operations.simps(2))+

lemma admin_operations_fields [simp]:
  "startTime (admin_operations ops w) = startTime w"
  "rng (admin_operations ops w) = rng w"
  "sel (admin_operations ops w) = sel w"
  "spos (admin_operations ops w) = spos w"
  "rpos (admin_operations ops w) = rpos w + length ops"
  by (induction ops arbitrary: w;
      simp add: admin_operations_step del: admin_operations.simps(2))+

lemma bad_operations_now3:
  "now (bad_operations [a, b, c] w) =
     now w + int (rng w (rpos w) mod 20 + 5) * Millisecond
           + int (rng w (rpos w + 1) mod 20 + 5) * Millisecond
           + int (rng w (rpos w + 2) mod 20 + 5) * Millisecond"
  by (simp add: bad_operations_step del: bad_operations.simps(2) of_nat_add)

lemma admin_operations_now3:
  "now (admin_operations [a, b, c] w) =
     now w + int (rng w (rpos w) mod 15 + 5) * Millisecond
           + int (rng w (rpos w + 1) mod 15 + 5) * Millisecond
           + int (rng w (rpos w + 2) mod 15 + 5) * Millisecond"
  by (simp add: admin_operations_step del: admin_operations.simps(2) of_nat_add)

lemma bad_operations_now_mono: "now w \<le> now (bad_operations ops w)"
proof (induction ops arbitrary: w)
  case Nil
  show ?case by simp
next
  case (Cons op ops)
  let ?v = "(log_Printf ''Operation failed: %s'' [VString op] w)
              \<lparr>rpos := Suc (rpos w), now := now w + int (rng w (rpos w) mod 20 + 5) * Millisecond\<rparr>"
  have "now w \<le> now ?v"
    by (simp add: Millisecond_def)
  also have "now ?v \<le> now (bad_operations ops ?v)"
    by (rule Cons.IH)
  finally show ?case
    by (simp only: bad_operations_step)
qed

lemma admin_operations_now_mono: "now w \<le> now (admin_operations ops w)"
proof (induction ops arbitrary: w)
  case Nil
  show ?case by simp
next
  case (Cons op ops)
  let ?v = "(log_Printf ''Auth operation: %s'' [VString op] w)
              \<lparr>rpos := Suc (rpos w), now := now w + int (rng w (rpos w) mod 15 + 5) * Millisecond\<rparr>"
  have "now w \<le> now ?v"
    by (simp add: Millisecond_def)
  also have "now ?v \<le> now (admin_operations ops ?v)"
    by (rule Cons.IH)
  finally show ?case
    by (simp only: admin_operations_step)
qed

text \<open>Agreement up to the log is kept by every step.\<close>

lemma timing_eq_refl: "timing_eq w w"
  by (simp add: timing_eq_def)

lemma timing_eq_log_left: "timing_eq w v \<Longrightarrow> timing_eq (log_Printf f a w) v"
  by (simp add: timing_eq_def)

lemma timing_eq_case_left:
  "timing_eq w v \<Longrightarrow> timing_eq (case e of None \<Rightarrow> w | Some x \<Rightarrow> log_Printf f (a x) w) v"
  by (simp add: timing_eq_def)

lemma timing_eq_now: "timing_eq w v \<Longrightarrow> now w = now v"
  by (simp add: timing_eq_def)

lemma simulateExternalAPI_timing_eq:
  assumes "timing_eq w v"
  shows "timing_eq (snd (simulateExternalAPI c endpoint w)) (snd (simulateExternalAPI c endpoint v))"
proof -
  have e: "rng w (rpos w) = rng v (rpos v)"
    using assms by (simp add: timing_eq_def)
  have t: "timing_eq
      ((log_Printf ''Calling external API: %s'' [VString endpoint] w)\<lparr>rpos := Suc (rpos w)\<rparr>)
      ((log_Printf ''Calling external API: %s'' [VString endpoint] v)\<lparr>rpos := Suc (rpos v)\<rparr>)"
    using assms by (simp add: timing_eq_def)
  show ?thesis
    using select_timing_eq [OF t] e by (simp add: simulateExternalAPI_unfold)
qed

lemma bad_operations_timing_eq:
  "timing_eq w v \<Longrightarrow> timing_eq (bad_operations ops w) (bad_operations ops v)"
proof (induction ops arbitrary: w v)
  case Nil
  then show ?case by simp
next
  case (Cons op ops)
  have "timing_eq
      ((log_Printf ''Operation failed: %s'' [VString op] w)
         \<lparr>rpos := Suc (rpos w), now := now w + int (rng w (rpos w) mod 20 + 5) * Millisecond\<rparr>)
      ((log_Printf ''Operation failed: %s'' [VString op] v)
         \<lparr>rpos := Suc (rpos v), now := now v + int (rng v (rpos v) mod 20 + 5) * Millisecond\<rparr>)"
    using Cons.prems by (simp add: timing_eq_def)
  then show ?case
    unfolding bad_operations_step by (rule Cons.IH)
qed

lemma admin_operations_timing_eq:
  "timing_eq w v \<Longrightarrow> timing_eq (admin_operations ops w) (admin_operations ops v)"
proof (induction ops arbitrary: w v)
  case Nil
  then show ?case by simp
next
  case (Cons op ops)
  have "timing_eq
      ((log_Printf ''Auth operation: %s'' [VString op] w)
         \<lparr>rpos := Suc (rpos w), now := now w + int (rng w (rpos w) mod 15 + 5) * Millisecond\<rparr>)
      ((log_Printf ''Auth operation: %s'' [VString op] v)
         \<lparr>rpos := Suc (rpos v), now := now v + int (rng v (rpos v) mod 15 + 5) * Millisecond\<rparr>)"
    using Cons.prems by (simp add: timing_eq_def)
  then show ?case
    unfolding admin_operations_step by (rule Cons.IH)
qed

text \<open>goodHandler\<close>

lemma good_db_wait_eq:
  "good_db_wait r w =
     (case done_at (ctx r) of
        None \<Rightarrow> None
      | Some t \<Rightarrow>
          if t < now w + db_latency (rng w (rpos w) mod 90) then Some (ctx_err (ctx r))
          else if now w + db_latency (rng w (rpos w) mod 90) < t then None
          else if sel w (spos w) then None else Some (ctx_err (ctx r)))"
  by (simp add: good_db_wait_def simulateDatabase_fst split: option.split)

lemma goodHandler_cancelled:
  assumes "good_db_wait r w = Some e"
  shows "fst (goodHandler rw r w) = http_Error rw ''Database unavailable'' 503"
  using assms by (simp add: goodHandler_def good_db_wait_def Let_def split_beta)

lemma goodHandler_served:
  assumes "good_db_wait r w = None"
  shows "fst (goodHandler rw r w) =
           Write (JSONLine
                    \<lparr>Status = ''success'',
                     Message = ''Request processed successfully'',
                     Data = VMap [''users'' \<mapsto> VUsers good_users,
                                  ''external_data'' \<mapsto> fst (good_api_call r w),
                                  ''processed_at'' \<mapsto> VTimeRFC3339 (now (snd (goodHandler rw r w)))]\<rparr>)
             (WriteHeader 200
                (rw\<lparr>wheader := Header_Set ''Content-Type'' ''application/json'' (wheader rw)\<rparr>))"
  using assms
  by (simp add: goodHandler_def good_db_wait_def good_api_call_def json_Encode_def Let_def split_beta)

lemma goodHandler_startTime: "startTime (snd (goodHandler rw r w)) = startTime w"
  by (simp add: goodHandler_def json_Encode_def Let_def split_beta split: option.split)

lemma goodHandler_now_mono: "now w \<le> now (snd (goodHandler rw r w))"
proof -
  let ?w1 = "log_Printf ''Processing good request from %s'' [VString (RemoteAddr r)] w"
  let ?w2 = "snd (simulateDatabase (ctx r) ''SELECT users WHERE active=true'' ?w1)"
  let ?w3 = "snd (simulateExternalAPI (ctx r) ''https://api.example.com/status'' ?w2)"
  have a: "now w \<le> now ?w2"
    using simulateDatabase_now_mono [of ?w1] by simp
  have b: "now ?w2 \<le> now ?w3"
    by (rule simulateExternalAPI_now_mono)
  have "now (snd (goodHandler rw r w)) = now ?w2 \<or> now (snd (goodHandler rw r w)) = now ?w3"
    by (simp add: goodHandler_def json_Encode_def Let_def split_beta split: option.split)
  with a b show ?thesis by linarith
qed

lemma goodHandler_api_error_logged:
  assumes "good_db_wait r w = None" and "snd (good_api_call r w) = Some e"
  shows "(''External API error: %v'', [VError e]) \<in> set (logs (snd (goodHandler rw r w)))"
  using assms
  by (simp add: goodHandler_def good_db_wait_def good_api_call_def json_Encode_def Let_def split_beta)

lemma good_api_call_payload:
  "fst (good_api_call r w) = VNil \<longleftrightarrow> snd (good_api_call r w) \<noteq> None"
  by (simp add: good_api_call_def simulateExternalAPI_unfold split: select_case.split)

text \<open>badHandler\<close>

lemma badHandler_fst:
  "fst (badHandler rw r w) =
     Write (JSONLine
              \<lparr>Status = ''error'',
               Message = ''Internal server error occurred'',
               Data = VMap [''error_code'' \<mapsto> VString ''INTERNAL_ERROR'',
                            ''timestamp'' \<mapsto> VTimeRFC3339 (now (snd (badHandler rw r w)))]\<rparr>)
       (WriteHeader 500
          (rw\<lparr>wheader := Header_Set ''Content-Type'' ''application/json'' (wheader rw)\<rparr>))"
  by (simp add: badHandler_def json_Encode_def Let_def split_beta del: bad_operations.simps)

lemma badHandler_startTime: "startTime (snd (badHandler rw r w)) = startTime w"
  by (simp add: badHandler_def json_Encode_def Let_def split_beta del: bad_operations.simps)

lemma badHandler_timing:
  "timing_eq (snd (badHandler rw r w))
     (snd (simulateExternalAPI (ctx r) ''https://api.example.com/broken-endpoint''
             (bad_operations
                [''validate_user_permissions'', ''check_rate_limits'', ''process_payment'']
                (snd (simulateDatabase (ctx r) ''SELECT * FROM non_existent_table'' w)))))"
  unfolding badHandler_def json_Encode_def Let_def split_beta snd_conv fst_conv option.case
  by (intro timing_eq_log_left timing_eq_case_left simulateExternalAPI_timing_eq
      bad_operations_timing_eq simulateDatabase_timing_eq(2) timing_eq_refl)

lemma badHandler_now:
  "now (snd (badHandler rw r w)) =
     now (snd (simulateExternalAPI (ctx r) ''https://api.example.com/broken-endpoint''
                 (bad_operations
                    [''validate_user_permissions'', ''check_rate_limits'', ''process_payment'']
                    (snd (simulateDatabase (ctx r) ''SELECT * FROM non_existent_table'' w)))))"
  by (rule timing_eq_now [OF badHandler_timing])

lemma badHandler_now_mono: "now w \<le> now (snd (badHandler rw r w))"
proof -
  let ?w2 = "snd (simulateDatabase (ctx r) ''SELECT * FROM non_existent_table'' w)"
  let ?w4 = "bad_operations
               [''validate_user_permissions'', ''check_rate_limits'', ''process_payment''] ?w2"
  have "now w \<le> now ?w2"
    by (rule simulateDatabase_now_mono)
  also have "now ?w2 \<le> now ?w4"
    by (rule bad_operations_now_mono)
  also have "now ?w4 \<le>
      now (snd (simulateExternalAPI (ctx r) ''https://api.example.com/broken-endpoint'' ?w4))"
    by (rule simulateExternalAPI_now_mono)
  finally show ?thesis
    by (simp only: badHandler_now)
qed

text \<open>adminHandler\<close>

lemma adminHandler_timing:
  "timing_eq (snd (adminHandler rw r w))
     (admin_operations
        [''validate_token_format'', ''check_token_expiry'', ''verify_admin_permissions'']
        (snd (simulateDatabase (ctx r) ''SELECT permissions FROM users WHERE token=?'' w)))"
  unfolding adminHandler_def json_Encode_def Let_def split_beta snd_conv fst_conv option.case
  by (intro timing_eq_log_left timing_eq_case_left
      admin_operations_timing_eq simulateDatabase_timing_eq(2) timing_eq_refl)

lemma adminHandler_now:
  "now (snd (adminHandler rw r w)) =
     now (admin_operations
            [''validate_token_format'', ''check_token_expiry'', ''verify_admin_permissions'']
            (snd (simulateDatabase (ctx r) ''SELECT permissions FROM users WHERE token=?'' w)))"
  by (rule timing_eq_now [OF adminHandler_timing])

lemma adminHandler_fst:
  "fst (adminHandler rw r w) =
     Write (JSONLine
              \<lparr>Status = ''error'',
               Message = ''Unauthorized access - admin privileges required'',
               Data = VMap [''error_code'' \<mapsto> VString ''UNAUTHORIZED'',
                            ''required_role'' \<mapsto> VString ''admin'',
                            ''timestamp'' \<mapsto> VTimeRFC3339 (now (snd (adminHandler rw r w)))]\<rparr>)
       (WriteHeader 401
          (rw\<lparr>wheader := Header_Set ''Content-Type'' ''application/json'' (wheader rw)\<rparr>))"
  by (simp add: adminHandler_def json_Encode_def Let_def split_beta del: admin_operations.simps)

lemma adminHandler_startTime: "startTime (snd (adminHandler rw r w)) = startTime w"
  by (simp add: adminHandler_def json_Encode_def Let_def split_beta del: admin_operations.simps)

lemma adminHandler_now_mono: "now w \<le> now (snd (adminHandler rw r w))"
proof -
  let ?w3 = "snd (simulateDatabase (ctx r) ''SELECT permissions FROM users WHERE token=?'' w)"
  have "now w \<le> now ?w3"
    by (rule simulateDatabase_now_mono)
  also have "now ?w3 \<le>
      now (admin_operations
             [''validate_token_format'', ''check_token_expiry'', ''verify_admin_permissions''] ?w3)"
    by (rule admin_operations_now_mono)
  finally show ?thesis
    by (simp only: adminHandler_now)
qed

text \<open>healthHandler and the root handler\<close>

lemma healthHandler_fst:
  "fst (healthHandler rw r w) =
     Write (JSONLine
              \<lparr>Status = ''healthy'',
               Message = ''Service is running'',
               Data = VMap [''uptime'' \<mapsto> VDurationString (time_Since (startTime w) w),
                            ''timestamp'' \<mapsto> VTimeRFC3339 (now w)]\<rparr>)
       (WriteHeader 200
          (rw\<lparr>wheader := Header_Set ''Content-Type'' ''application/json'' (wheader rw)\<rparr>))"
  by (simp add: healthHandler_def json_Encode_def Let_def time_Since_def)

lemma healthHandler_snd:
  "snd (healthHandler rw r w) = log_Printf ''Health check from %s'' [VString (RemoteAddr r)] w"
  by (simp add: healthHandler_def json_Encode_def Let_def)

lemma rootHandler_snd: "snd (rootHandler rw r w) = w"
  by (simp add: rootHandler_def json_Encode_def Let_def)

lemma handler_startTime: "startTime (snd (handler_of e rw r w)) = startTime w"
  by (cases e)
    (simp_all add: goodHandler_startTime badHandler_startTime adminHandler_startTime
      healthHandler_snd rootHandler_snd)

lemma handler_now_mono: "now w \<le> now (snd (handler_of e rw r w))"
  by (cases e)
    (simp_all add: goodHandler_now_mono badHandler_now_mono adminHandler_now_mono
      healthHandler_snd rootHandler_snd)

text \<open>Replies on a fresh response writer, and the concrete state and requests.\<close>

lemma example_fields [simp]:
  "now (example_world k) = 0"
  "startTime (example_world k) = 0"
  "seeded (example_world k) s i = k"
  "rng (example_world k) i = k"
  "rpos (example_world k) = 0"
  "sel (example_world k) i = True"
  "spos (example_world k) = 0"
  "logs (example_world k) = []"
  "Method (example_request p d) = ''GET''"
  "Path (example_request p d) = p"
  "done_at (ctx (example_request p d)) = d"
  "ctx_err (ctx (example_request p d)) = Canceled"
  by (simp_all add: example_world_def example_request_def)

lemma http_Error_new:
  "status (http_Error newResponseWriter msg code) = Some code"
  "body (http_Error newResponseWriter msg code) = [TextLine msg]"
  "content_type (http_Error newResponseWriter msg code) = Some [''text/plain; charset=utf-8'']"
  by (simp_all add: rw_defs Let_def)

lemma json_reply_new:
  "status (Write (JSONLine v) (WriteHeader code
     (newResponseWriter\<lparr>wheader := Header_Set ''Content-Type'' ''application/json''
        (wheader newResponseWriter)\<rparr>))) = Some code"
  "json_body (Write (JSONLine v) (WriteHeader code
     (newResponseWriter\<lparr>wheader := Header_Set ''Content-Type'' ''application/json''
        (wheader newResponseWriter)\<rparr>))) = Some v"
  "content_type (Write (JSONLine v) (WriteHeader code
     (newResponseWriter\<lparr>wheader := Header_Set ''Content-Type'' ''application/json''
        (wheader newResponseWriter)\<rparr>))) = Some [''application/json'']"
  by (simp_all add: rw_defs Let_def)

text \<open>A request to /bad or /admin whose context is finished on entry.\<close>

lemma badHandler_cancelled_on_entry:
  assumes "done_at (ctx r) = Some t" and "t \<le> now w"
  shows "now (snd (badHandler rw r w)) =
           now w + int (rng w (rpos w + 1) mod 20 + 5) * Millisecond
                 + int (rng w (rpos w + 2) mod 20 + 5) * Millisecond
                 + int (rng w (rpos w + 3) mod 20 + 5) * Millisecond"
proof -
  let ?w2 = "snd (simulateDatabase (ctx r) ''SELECT * FROM non_existent_table'' w)"
  let ?w4 = "bad_operations
               [''validate_user_permissions'', ''check_rate_limits'', ''process_payment''] ?w2"
  have l: "t < now w + db_latency (rng w (rpos w) mod 90)"
    using assms(2) db_latency_pos(1) [of "rng w (rpos w) mod 90"] by linarith
  have w2: "now ?w2 = now w"
    using assms l by (simp add: simulateDatabase_now)
  have w4: "now ?w4 = now w + int (rng w (rpos w + 1) mod 20 + 5) * Millisecond
                 + int (rng w (rpos w + 2) mod 20 + 5) * Millisecond
                 + int (rng w (rpos w + 3) mod 20 + 5) * Millisecond"
    by (simp only: bad_operations_now3 w2 simulateDatabase_fields)
      (simp add: numeral_3_eq_3 numeral_2_eq_2)
  have m: "now w \<le> now ?w4"
    using bad_operations_now_mono
      [of ?w2 "[''validate_user_permissions'', ''check_rate_limits'', ''process_payment'']"]
    by (simp only: w2)
  have a: "t < now ?w4 + api_latency (rng ?w4 (rpos ?w4) mod 200)"
    using assms(2) m api_latency_pos(1) [of "rng ?w4 (rpos ?w4) mod 200"] by linarith
  have "now (snd (simulateExternalAPI (ctx r) ''https://api.example.com/broken-endpoint'' ?w4))
          = now ?w4"
    using assms m a by (simp only: simulateExternalAPI_now option.case) simp
  then show ?thesis
    by (simp only: badHandler_now w4)
qed

lemma adminHandler_cancelled_on_entry:
  assumes "done_at (ctx r) = Some t" and "t \<le> now w"
  shows "now (snd (adminHandler rw r w)) =
           now w + int (rng w (rpos w + 1) mod 15 + 5) * Millisecond
                 + int (rng w (rpos w + 2) mod 15 + 5) * Millisecond
                 + int (rng w (rpos w + 3) mod 15 + 5) * Millisecond"
proof -
  let ?w3 = "snd (simulateDatabase (ctx r) ''SELECT permissions FROM users WHERE token=?'' w)"
  have l: "t < now w + db_latency (rng w (rpos w) mod 90)"
    using assms(2) db_latency_pos(1) [of "rng w (rpos w) mod 90"] by linarith
  have w3: "now ?w3 = now w"
    using assms l by (simp add: simulateDatabase_now)
  show ?thesis
    by (simp only: adminHandler_now admin_operations_now3 w3 simulateDatabase_fields)
      (simp add: numeral_3_eq_3 numeral_2_eq_2)
qed

text \<open>The time /bad and /admin take, for every context.\<close>

lemma badHandler_time:
  "now (snd (badHandler rw r w)) =
     (let start = now (snd (simulateDatabase (ctx r) ''SELECT * FROM non_existent_table'' w))
                    + int (rng w (rpos w + 1) mod 20 + 5) * Millisecond
                    + int (rng w (rpos w + 2) mod 20 + 5) * Millisecond
                    + int (rng w (rpos w + 3) mod 20 + 5) * Millisecond;
          fire = start + api_latency (rng w (rpos w + 4) mod 200)
      in case done_at (ctx r) of
           None \<Rightarrow> fire
         | Some t \<Rightarrow> if t < fire then max start t else fire)"
proof -
  let ?w2 = "snd (simulateDatabase (ctx r) ''SELECT * FROM non_existent_table'' w)"
  let ?w4 = "bad_operations
               [''validate_user_permissions'', ''check_rate_limits'', ''process_payment''] ?w2"
  have w4: "now ?w4 = now ?w2 + int (rng w (rpos w + 1) mod 20 + 5) * Millisecond
                 + int (rng w (rpos w + 2) mod 20 + 5) * Millisecond
                 + int (rng w (rpos w + 3) mod 20 + 5) * Millisecond"
    by (simp only: bad_operations_now3 simulateDatabase_fields)
      (simp add: numeral_3_eq_3 numeral_2_eq_2)
  have r4: "rng ?w4 (rpos ?w4) = rng w (rpos w + 4)"
    by (simp only: bad_operations_fields simulateDatabase_fields) (simp add: eval_nat_numeral)
  show ?thesis
    by (simp only: badHandler_now simulateExternalAPI_now r4 w4 Let_def)
qed

lemma adminHandler_time:
  "now (snd (adminHandler rw r w)) =
     now (snd (simulateDatabase (ctx r) ''SELECT permissions FROM users WHERE token=?'' w))
       + int (rng w (rpos w + 1) mod 15 + 5) * Millisecond
       + int (rng w (rpos w + 2) mod 15 + 5) * Millisecond
       + int (rng w (rpos w + 3) mod 15 + 5) * Millisecond"
  by (simp only: adminHandler_now admin_operations_now3 simulateDatabase_fields)
    (simp add: numeral_3_eq_3 numeral_2_eq_2)

lemma badHandler_sleeps_lower:
  "now (snd (simulateDatabase (ctx r) ''SELECT * FROM non_existent_table'' w))
     + int (rng w (rpos w + 1) mod 20 + 5) * Millisecond
     + int (rng w (rpos w + 2) mod 20 + 5) * Millisecond
     + int (rng w (rpos w + 3) mod 20 + 5) * Millisecond
   \<le> now (snd (badHandler rw r w))"
  using api_latency_pos(3) [of "rng w (rpos w + 4) mod 200"]
  by (simp only: badHandler_time Let_def split: option.split) (simp add: max_def)

text \<open>The uptimes reported along a run.\<close>

lemma time_Sub_mono: "t \<le> t' \<Longrightarrow> time_Sub t u \<le> time_Sub t' u"
  by (simp add: time_Sub_def Let_def maxDuration_def minDuration_def)

lemma healthHandler_reply:
  "status (fst (healthHandler newResponseWriter r w)) = Some 200"
  "uptime_of (fst (healthHandler newResponseWriter r w)) = Some (time_Since (startTime w) w)"
  by (simp_all add: healthHandler_fst json_reply_new uptime_of_def field_def)

lemma run_health:
  assumes "startTime w \<le> now w"
  shows "(\<forall>(e, rw) \<in> set (run w es). e = Health \<longrightarrow>
            status rw = Some 200 \<and>
            (\<exists>d. uptime_of rw = Some d \<and> time_Since (startTime w) w \<le> d)) \<and>
         sorted (health_uptimes (run w es)) \<and>
         (\<forall>d \<in> set (health_uptimes (run w es)). time_Since (startTime w) w \<le> d)"
  using assms
proof (induction es arbitrary: w)
  case Nil
  show ?case by simp
next
  case (Cons ev es)
  show ?case
  proof (cases ev)
    case (Elapse n)
    let ?v = "w\<lparr>now := now w + int n\<rparr>"
    have v: "startTime ?v \<le> now ?v" "startTime ?v = startTime w"
      using Cons.prems by simp_all
    have le: "time_Since (startTime w) w \<le> time_Since (startTime ?v) ?v"
      by (simp add: time_Since_def time_Sub_mono)
    show ?thesis
      using Cons.IH [OF v(1)] le unfolding Elapse by (fastforce simp del: health_uptimes.simps)
  next
    case (Serve e r)
    let ?p = "handler_of e newResponseWriter r w"
    let ?v = "snd ?p"
    have s: "startTime ?v = startTime w"
      by (rule handler_startTime)
    have n: "now w \<le> now ?v"
      by (rule handler_now_mono)
    have v: "startTime ?v \<le> now ?v"
      using Cons.prems s n by simp
    have le: "time_Since (startTime w) w \<le> time_Since (startTime ?v) ?v"
      using n by (simp add: s time_Since_def time_Sub_mono)
    have r: "run w (Serve e r # es) = (e, fst ?p) # run ?v es"
      by (simp add: split_beta)
    note ih = Cons.IH [OF v]
    have all: "\<forall>d \<in> set (health_uptimes (run ?v es)). time_Since (startTime w) w \<le> d"
      using ih le by fastforce
    have rest: "\<forall>(e', rw) \<in> set (run ?v es). e' = Health \<longrightarrow>
            status rw = Some 200 \<and>
            (\<exists>d. uptime_of rw = Some d \<and> time_Since (startTime w) w \<le> d)"
      using ih le by fastforce
    show ?thesis
    proof (cases "e = Health")
      case True
      have h: "status (fst ?p) = Some 200"
        "uptime_of (fst ?p) = Some (time_Since (startTime w) w)"
        using True by (simp_all add: healthHandler_reply)
      have hu: "health_uptimes (run w (Serve e r # es)) =
                  time_Since (startTime w) w # health_uptimes (run ?v es)"
        unfolding r using True h by simp
      show ?thesis
        unfolding Serve hu r
        using ih all rest h True by simp
    next
      case False
      have hu: "health_uptimes (run w (Serve e r # es)) = health_uptimes (run ?v es)"
        unfolding r using False by simp
      show ?thesis
        unfolding Serve hu r
        using ih all rest False by simp
    qed
  qed
qed

lemma main_run: "\<exists>v. main w es = run v es \<and> startTime v = now v"
  by (rule exI [of _ "log_Printf ''  GET /health  - Health check endpoint'' []
        (log_Printf ''  GET /admin   - Returns 401 unauthorized'' []
        (log_Printf ''  GET /bad     - Returns 500 with error response'' []
        (log_Printf ''  GET /good    - Returns 200 with success response'' []
        (log_Printf ''  GET /        - Service info'' []
        (log_Printf ''Available endpoints:'' []
        (log_Printf ''Starting server on port %s'' [VString '':8080'']
        (rand_Seed (now w) (w\<lparr>startTime := now w\<rparr>))))))))"])
    (simp add: main_def Let_def rand_Seed_def)

section \<open>The claims\<close>

text \<open>
  C1. A request to /good whose context is finished before the timer of the initial
  database wait fires (so, in particular, one cancelled during that wait) is answered
  with status 503 and the plain-text body "Database unavailable", never with 200.
  The status of /good is decided by that wait alone: it is 200 when the wait returns
  no error and 503 when it returns one, whatever the later external call does.
\<close>

theorem goodHandler_cancelled_503:
  "(done_at (ctx r) = Some t \<and> t < now w + db_latency (rng w (rpos w) mod 90) \<longrightarrow>
      good_db_wait r w = Some (ctx_err (ctx r)) \<and>
      status (fst (goodHandler newResponseWriter r w)) = Some 503 \<and>
      status (fst (goodHandler newResponseWriter r w)) \<noteq> Some 200 \<and>
      body (fst (goodHandler newResponseWriter r w)) = [TextLine ''Database unavailable'']) \<and>
   status (fst (goodHandler newResponseWriter r w)) =
     (if good_db_wait r w = None then Some 200 else Some 503)"
proof (cases "good_db_wait r w")
  case None
  then show ?thesis
    by (auto simp add: goodHandler_served json_reply_new good_db_wait_eq)
next
  case (Some e)
  then show ?thesis
    by (auto simp add: goodHandler_cancelled http_Error_new good_db_wait_eq)
qed

theorem goodHandler_cancelled_503_witness:
  "done_at (ctx (example_request ''/good'' (Some 5000000))) = Some 5000000 \<and>
   5000000 < now (example_world 0) + db_latency (rng (example_world 0) (rpos (example_world 0)) mod 90) \<and>
   status (fst (goodHandler newResponseWriter (example_request ''/good'' (Some 5000000)) (example_world 0)))
     = Some 503"
  using goodHandler_cancelled_503 [of "example_request ''/good'' (Some 5000000)" 5000000 "example_world 0"]
  by (simp add: db_latency_def Millisecond_def)

text \<open>
  C2. A request to /good whose initial database wait returns no error is answered with
  status 200 and a JSON document whose data.users holds exactly the three records
  (1, "Alice Johnson"), (2, "Bob Smith"), (3, "Charlie Brown").
\<close>

theorem goodHandler_served_200_users:
  assumes "good_db_wait r w = None"
  shows "status (fst (goodHandler newResponseWriter r w)) = Some 200 \<and>
         (\<exists>v. json_body (fst (goodHandler newResponseWriter r w)) = Some v \<and>
              Status v = ''success'' \<and>
              field (Data v) ''users'' =
                Some (VUsers [\<lparr>ID = 1, Name = ''Alice Johnson''\<rparr>,
                              \<lparr>ID = 2, Name = ''Bob Smith''\<rparr>,
                              \<lparr>ID = 3, Name = ''Charlie Brown''\<rparr>]))"
  by (simp add: goodHandler_served [OF assms] json_reply_new good_users_def field_def)

theorem goodHandler_served_200_users_witness:
  "good_db_wait (example_request ''/good'' None) (example_world 0) = None \<and>
   status (fst (goodHandler newResponseWriter (example_request ''/good'' None) (example_world 0)))
     = Some 200"
proof -
  have h: "good_db_wait (example_request ''/good'' None) (example_world 0) = None"
    by (simp add: good_db_wait_eq)
  show ?thesis
    using h goodHandler_served_200_users [OF h] by simp
qed

text \<open>
  C3. Every request to /bad, in every state and with every context (finished or not),
  is answered with status 500 and the fixed envelope: status "error", the fixed message,
  data.error_code "INTERNAL_ERROR". No run of the handler gives another status.
\<close>

theorem badHandler_always_500:
  "status (fst (badHandler newResponseWriter r w)) = Some 500 \<and>
   (\<exists>v. json_body (fst (badHandler newResponseWriter r w)) = Some v \<and>
        Status v = ''error'' \<and>
        Message v = ''Internal server error occurred'' \<and>
        field (Data v) ''error_code'' = Some (VString ''INTERNAL_ERROR''))"
  by (simp add: badHandler_fst json_reply_new field_def)

text \<open>
  C4. Every request to /admin is answered with status 401 and the fixed envelope
  (data.error_code "UNAUTHORIZED", data.required_role "admin"), and the request headers
  have no influence on the response: two requests that differ only in their header map
  (the Authorization header present with any value, or absent) get the same response.
\<close>

theorem adminHandler_always_401:
  "status (fst (adminHandler newResponseWriter r w)) = Some 401 \<and>
   (\<exists>v. json_body (fst (adminHandler newResponseWriter r w)) = Some v \<and>
        Status v = ''error'' \<and>
        Message v = ''Unauthorized access - admin privileges required'' \<and>
        field (Data v) ''error_code'' = Some (VString ''UNAUTHORIZED'') \<and>
        field (Data v) ''required_role'' = Some (VString ''admin'')) \<and>
   fst (adminHandler newResponseWriter (r\<lparr>Header := h\<rparr>) w) =
     fst (adminHandler newResponseWriter (r\<lparr>Header := h'\<rparr>) w)"
  by (simp add: adminHandler_fst adminHandler_now json_reply_new field_def)




text \<open>
  C6. When the database wait of a request to /good returns no error and its external
  call returns an error (the context finished during that call), the handler still
  answers with status 200 and the full envelope: status "success", the message, the three
  users, the time of processing, and a nil payload under data.external_data. The error
  is written to the log.
\<close>

theorem goodHandler_external_failure_tolerated:
  assumes "good_db_wait r w = None" and "snd (good_api_call r w) = Some e"
  shows "status (fst (goodHandler newResponseWriter r w)) = Some 200 \<and>
         (\<exists>v. json_body (fst (goodHandler newResponseWriter r w)) = Some v \<and>
              Status v = ''success'' \<and>
              Message v = ''Request processed successfully'' \<and>
              field (Data v) ''users'' = Some (VUsers good_users) \<and>
              field (Data v) ''external_data'' = Some VNil \<and>
              field (Data v) ''processed_at'' =
                Some (VTimeRFC3339 (now (snd (goodHandler newResponseWriter r w))))) \<and>
         (''External API error: %v'', [VError e])
           \<in> set (logs (snd (goodHandler newResponseWriter r w)))"
proof -
  have "fst (good_api_call r w) = VNil"
    using assms(2) by (simp add: good_api_call_payload)
  then show ?thesis
    using goodHandler_api_error_logged [OF assms, of newResponseWriter]
    by (simp add: goodHandler_served [OF assms(1)] json_reply_new field_def)
qed

theorem goodHandler_external_failure_tolerated_witness:
  "good_db_wait (example_request ''/good'' (Some 20000000)) (example_world 0) = None \<and>
   snd (good_api_call (example_request ''/good'' (Some 20000000)) (example_world 0)) = Some Canceled \<and>
   status (fst (goodHandler newResponseWriter (example_request ''/good'' (Some 20000000))
                  (example_world 0))) = Some 200"
proof -
  have h: "good_db_wait (example_request ''/good'' (Some 20000000)) (example_world 0) = None"
    by (simp add: good_db_wait_eq db_latency_def Millisecond_def)
  have g: "snd (good_api_call (example_request ''/good'' (Some 20000000)) (example_world 0))
             = Some Canceled"
    by (simp add: good_api_call_def simulateExternalAPI_err simulateDatabase_now
        db_latency_def api_latency_def Millisecond_def)
  show ?thesis
    using h g goodHandler_external_failure_tolerated [OF h g] by simp
qed

text \<open>
  C7. In every run of the process, each response of /health has status 200 and reports an
  uptime that is not negative, and the uptimes reported by successive /health responses
  never decrease. The uptime is the time elapsed on the clock since \<open>startTime\<close>,
  which \<open>main\<close> sets and no handler changes.
\<close>

theorem health_uptime_nonneg_monotone:
  "(\<forall>(e, rw) \<in> set (main w es). e = Health \<longrightarrow>
       status rw = Some 200 \<and> (\<exists>d. uptime_of rw = Some d \<and> 0 \<le> d)) \<and>
   sorted (health_uptimes (main w es)) \<and>
   status (fst (healthHandler newResponseWriter r v)) = Some 200 \<and>
   uptime_of (fst (healthHandler newResponseWriter r v)) = Some (time_Since (startTime v) v) \<and>
   startTime (snd (handler_of ep newResponseWriter r v)) = startTime v"
proof -
  obtain u where u: "main w es = run u es" "startTime u = now u"
    using main_run by blast
  have i: "startTime u \<le> now u"
    using u(2) by simp
  have z: "time_Since (startTime u) u = 0"
    using u(2) by (simp add: time_Since_def time_Sub_def Let_def maxDuration_def minDuration_def)
  show ?thesis
    using run_health [OF i, of es]
    unfolding u(1) z
    by (simp add: healthHandler_reply handler_startTime)
qed

theorem health_uptime_nonneg_monotone_witness:
  "map fst (main (example_world 0)
      [Serve Health (example_request ''/health'' None), Elapse 7,
       Serve Health (example_request ''/health'' None)]) = [Health, Health] \<and>
   health_uptimes (main (example_world 0)
      [Serve Health (example_request ''/health'' None), Elapse 7,
       Serve Health (example_request ''/health'' None)]) = [0, 7] \<and>
   sorted (health_uptimes (main (example_world 0)
      [Serve Health (example_request ''/health'' None), Elapse 7,
       Serve Health (example_request ''/health'' None)]))"
proof -
  have u: "health_uptimes (main (example_world 0)
      [Serve Health (example_request ''/health'' None), Elapse 7,
       Serve Health (example_request ''/health'' None)]) = [0, 7]"
    by (simp add: main_def rand_Seed_def split_beta healthHandler_reply healthHandler_snd
        time_Since_def time_Sub_def Let_def maxDuration_def minDuration_def)
  have m: "map fst (main (example_world 0)
      [Serve Health (example_request ''/health'' None), Elapse 7,
       Serve Health (example_request ''/health'' None)]) = [Health, Health]"
    by (simp add: main_def Let_def split_beta)
  show ?thesis
    using u m health_uptime_nonneg_monotone
      [of "example_world 0" "[Serve Health (example_request ''/health'' None), Elapse 7,
       Serve Health (example_request ''/health'' None)]"]
    by simp
qed

text \<open>
  C8, as the code has it. The latency of a database wait is never 100 ms: the largest
  number \<open>rand.Intn(90)\<close> can return is 89, which gives 99 ms.
\<close>

theorem db_latency_excludes_100ms:
  "db_latency 89 = 99 * Millisecond \<and>
   100 * Millisecond \<notin> db_latency ` {0..<90} \<and>
   now (snd (simulateDatabase (ctx (example_request ''/good'' None)) ''SELECT users WHERE active=true''
               (example_world 89))) = 99 * Millisecond"
  by (auto simp add: db_latency_def Millisecond_def simulateDatabase_now)

text \<open>
  C8, amended. The latency of every simulated database wait is 10 ms plus the number
  \<open>rand.Intn(90)\<close> returns, in milliseconds: one of the 90 values 10 ms, 11 ms, ..., 99 ms,
  each of them given by exactly one of the 90 numbers the generator can return, so that a
  uniform draw gives a uniform latency on these values. It is the latency written to the
  log, and the time the wait takes when the context is not finished.
\<close>

theorem db_latency_range:
  "fst (rand_Intn 90 w) < 90 \<and>
   10 * Millisecond \<le> db_latency (fst (rand_Intn 90 w)) \<and>
   db_latency (fst (rand_Intn 90 w)) \<le> 99 * Millisecond \<and>
   bij_betw db_latency {0..<90} ((\<lambda>m. int m * Millisecond) ` {10..99}) \<and>
   now (snd (simulateDatabase (c\<lparr>done_at := None\<rparr>) operation w)) =
     now w + db_latency (fst (rand_Intn 90 w)) \<and>
   logs (snd (simulateDatabase c operation w)) =
     logs w @ [(''Database operation: %s (latency: %v)'',
                [VString operation, VDuration (db_latency (fst (rand_Intn 90 w)))])]"
proof -
  have inj: "inj_on db_latency {0..<90}"
    by (rule inj_onI) (simp add: db_latency_def Millisecond_def)
  have img: "db_latency ` {0..<90} = (\<lambda>m. int m * Millisecond) ` {10..99}"
  proof (rule set_eqI, rule iffI)
    fix x
    assume "x \<in> db_latency ` {0..<90}"
    then obtain k where k: "k < 90" "x = db_latency k" by auto
    then have "x = int (k + 10) * Millisecond" "k + 10 \<in> {10..99}"
      by (simp_all add: db_latency_def)
    then show "x \<in> (\<lambda>m. int m * Millisecond) ` {10..99}" by blast
  next
    fix x
    assume "x \<in> (\<lambda>m. int m * Millisecond) ` {10..99}"
    then obtain m where m: "10 \<le> m" "m \<le> 99" "x = int m * Millisecond" by auto
    then have "x = db_latency (m - 10)" "m - 10 \<in> {0..<90}"
      by (simp_all add: db_latency_def)
    then show "x \<in> db_latency ` {0..<90}" by blast
  qed
  have b: "bij_betw db_latency {0..<90} ((\<lambda>m. int m * Millisecond) ` {10..99})"
    unfolding bij_betw_def using inj img by simp
  have k: "fst (rand_Intn 90 w) < 90"
    by (simp add: rand_Intn_def)
  have u: "db_latency (fst (rand_Intn 90 w)) \<le> 99 * Millisecond"
    using k by (simp add: db_latency_def Millisecond_def)
  show ?thesis
    using b k u by (simp add: simulateDatabase_now simulateDatabase_logs) (simp add: rand_Intn_def)
qed

text \<open>
  C9, as the code has it. The 503 reply of /good and the 404 reply of the root handler
  are written by \<open>http.Error\<close> and \<open>http.NotFound\<close>, which set the content type
  to text/plain.
\<close>

theorem error_replies_are_plain_text:
  "content_type (fst (goodHandler newResponseWriter (example_request ''/good'' (Some 0))
                        (example_world 0))) = Some [''text/plain; charset=utf-8''] \<and>
   status (fst (goodHandler newResponseWriter (example_request ''/good'' (Some 0))
                  (example_world 0))) = Some 503 \<and>
   content_type (fst (rootHandler newResponseWriter (example_request ''/missing'' None)
                        (example_world 0))) = Some [''text/plain; charset=utf-8''] \<and>
   status (fst (rootHandler newResponseWriter (example_request ''/missing'' None)
                  (example_world 0))) = Some 404"
proof -
  have "good_db_wait (example_request ''/good'' (Some 0)) (example_world 0) = Some Canceled"
    by (simp add: good_db_wait_eq db_latency_def Millisecond_def)
  then show ?thesis
    by (simp add: goodHandler_cancelled http_Error_new rootHandler_def http_NotFound_def)
qed

text \<open>
  C9, amended. Every response that carries an envelope has the content type
  application/json: all responses of /bad, /admin and /health, the response of /good when
  the database wait returns no error, and the response of the root handler for the path
  "/". The two remaining replies (503 of /good, 404 of the root handler) have the content
  type text/plain; charset=utf-8.
\<close>

theorem content_type_of_responses:
  "content_type (fst (goodHandler newResponseWriter r w)) =
     (if good_db_wait r w = None then Some [''application/json'']
      else Some [''text/plain; charset=utf-8'']) \<and>
   content_type (fst (badHandler newResponseWriter r w)) = Some [''application/json''] \<and>
   content_type (fst (adminHandler newResponseWriter r w)) = Some [''application/json''] \<and>
   content_type (fst (healthHandler newResponseWriter r w)) = Some [''application/json''] \<and>
   content_type (fst (rootHandler newResponseWriter r w)) =
     (if Path r = ''/'' then Some [''application/json'']
      else Some [''text/plain; charset=utf-8''])"
proof -
  have g: "content_type (fst (goodHandler newResponseWriter r w)) =
     (if good_db_wait r w = None then Some [''application/json'']
      else Some [''text/plain; charset=utf-8''])"
  proof (cases "good_db_wait r w")
    case None
    then show ?thesis by (simp add: goodHandler_served json_reply_new)
  next
    case (Some e)
    then show ?thesis by (simp add: goodHandler_cancelled http_Error_new)
  qed
  have r: "content_type (fst (rootHandler newResponseWriter r w)) =
     (if Path r = ''/'' then Some [''application/json'']
      else Some [''text/plain; charset=utf-8''])"
    by (simp add: rootHandler_def http_NotFound_def http_Error_new) (simp add: rw_defs Let_def)
  show ?thesis
    by (simp only: g r badHandler_fst adminHandler_fst healthHandler_fst json_reply_new simp_thms)
qed

text \<open>
  C10. None of the five registered handlers reads the request method: run on the same
  request with any method in place of GET, in the same state, a handler gives the same
  response and leaves the same state.
\<close>

theorem handlers_ignore_method:
  "handler_of e rw (r\<lparr>Method := m\<rparr>) w = handler_of e rw (r\<lparr>Method := ''GET''\<rparr>) w"
  by (cases e)
    (simp_all add: goodHandler_def badHandler_def adminHandler_def healthHandler_def
      rootHandler_def)

end
